theory Spec2Isabelle
  imports Complex_Main "HOL-Library.Multiset" "HOL-Library.FSet" "HOL-Library.Sublist"
begin

section \<open>Bond fans: a shallow embedding of homeassistant/components/bond/fan.py\<close>

text \<open>
  The module adapts two kinds of Bond devices to the fan platform: \<open>BondFan\<close> (speed given
  as a step \<open>1..max_speed\<close>) and \<open>BondFireplaceFan\<close> (speed given as one of the vendor
  values listed by the device's \<open>SetFpFan\<close> commands). Exceptions are values of the type
  \<open>error\<close>, a method that can raise returns \<open>error + 'a\<close>, and the calls made to the hub
  are recorded in a list that every asynchronous method takes and returns.
\<close>

subsection \<open>Exceptions and Python values\<close>

datatype error =
    ClientResponseError int string
  | ClientConnectorError string
  | HomeAssistantError string
  | ValueError
  | IndexError
  | ZeroDivisionError

datatype pyval =
    PyNone
  | PyInt int
  | PyStr string
  | PySet "pyval fset"
  | PyDict "(pyval \<times> pyval) list"

text \<open>Truthiness of an \<open>int | None\<close> and of a \<open>bool | None\<close>, as \<open>not x\<close> reads them.\<close>

fun truthy_int :: "int option \<Rightarrow> bool" where
  "truthy_int None = False"
| "truthy_int (Some v) = (v \<noteq> 0)"

fun truthy_bool :: "bool option \<Rightarrow> bool" where
  "truthy_bool None = False"
| "truthy_bool (Some b) = b"

text \<open>\<open>int(b)\<close> of a bool.\<close>

definition int_of_bool :: "bool \<Rightarrow> int" where
  "int_of_bool b = (if b then 1 else 0)"

text \<open>\<open>str(n)\<close> of an int, as an f-string prints it.\<close>

definition digit_char :: "nat \<Rightarrow> char" where
  "digit_char d = char_of (48 + d)"

fun str_nat :: "nat \<Rightarrow> string" where
  "str_nat n = (if n < 10 then [digit_char n] else str_nat (n div 10) @ [digit_char (n mod 10)])"

declare str_nat.simps [simp del]

definition str_int :: "int \<Rightarrow> string" where
  "str_int i = (if i < 0 then CHR ''-'' # str_nat (nat (- i)) else str_nat (nat i))"

text \<open>
  The subscript \<open>xs[i]\<close> of a list. Python reads \<open>xs[-1]\<close> as the last element, and
  raises IndexError when the position is on neither side inside the list.
\<close>

definition getitem :: "'a list \<Rightarrow> int \<Rightarrow> error + 'a" where
  "getitem xs i =
     (if 0 \<le> i \<and> i < int (length xs) then Inr (xs ! nat i)
      else if i < 0 \<and> - int (length xs) \<le> i then Inr (xs ! nat (int (length xs) + i))
      else Inl IndexError)"

text \<open>\<open>xs.index(v)\<close>: the first position holding \<open>v\<close>; \<open>None\<close> stands for the ValueError.\<close>

fun list_index :: "'a list \<Rightarrow> 'a \<Rightarrow> nat option" where
  "list_index [] v = None"
| "list_index (x # xs) v = (if x = v then Some 0 else map_option Suc (list_index xs v))"

subsection \<open>homeassistant.util.percentage\<close>

text \<open>
  Modelled from the spec: homeassistant.util.percentage is imported by fan.py and is not
  among the sources. The number of states of a range \<open>(low, high)\<close> is
  \<open>high - low + 1\<close>, which is the spec's step count of a range with \<open>low \<le> high\<close>;
  the ranges of this module are \<open>(1, N)\<close>.
\<close>

definition states_in_range :: "int \<times> int \<Rightarrow> int" where
  "states_in_range low_high_range = snd low_high_range - fst low_high_range + 1"

text \<open>
  Modelled from the spec: \<open>percentage_to_ranged_value\<close> of homeassistant.util.percentage
  is not among the sources; the spec describes it as mapping the percentage linearly onto
  the range. Percentage 100 goes to the top of the range and 0 to just below its bottom.
  Python returns a float; here the value is an exact rational, which agrees with the float
  under \<open>math.ceil\<close> as long as states times percentage stays below \<open>2^53\<close>.
\<close>

definition percentage_to_ranged_value :: "int \<times> int \<Rightarrow> int \<Rightarrow> rat" where
  "percentage_to_ranged_value low_high_range percentage =
     of_int (states_in_range low_high_range) * of_int percentage / 100
       + of_int (fst low_high_range - 1)"

text \<open>
  Modelled from the spec: \<open>ranged_value_to_percentage\<close> of homeassistant.util.percentage
  is not among the sources; the spec describes it as the inverse mapping, giving the integer
  percentage shown for a step. It divides by the number of states, rounding down, and so
  raises ZeroDivisionError on a range without states.
\<close>

definition ranged_value_to_percentage :: "int \<times> int \<Rightarrow> int \<Rightarrow> error + int" where
  "ranged_value_to_percentage low_high_range v =
     (if states_in_range low_high_range = 0 then Inl ZeroDivisionError
      else Inr (((v - (fst low_high_range - 1)) * 100) div states_in_range low_high_range))"

text \<open>\<open>math.ceil\<close> and \<open>math.floor\<close>.\<close>

definition math_ceil :: "rat \<Rightarrow> int" where
  "math_ceil x = \<lceil>x\<rceil>"

definition math_floor :: "rat \<Rightarrow> int" where
  "math_floor x = \<lfloor>x\<rfloor>"

subsection \<open>Actions, the hub and the device\<close>

text \<open>
  \<open>Action\<close> comes from the bond_async library. \<open>Action(name, argument)\<close> is the
  constructor \<open>Action\<close>; the library's static constructors (\<open>Action.set_speed(n)\<close>,
  \<open>Action.turn_off()\<close>, ...) are kept as constructors of their own, since what they build
  is the library's business.
\<close>

datatype action_name =
  BREEZE_ON | BREEZE_OFF | SET_FP_FAN | SET_STATE_BELIEF | TURN_FP_FAN_ON | TURN_FP_FAN_OFF

datatype action =
    Action action_name pyval
  | set_speed int
  | set_power_state_belief bool
  | set_speed_belief int
  | turn_on
  | turn_off

text \<open>
  A call \<open>self._hub.bond.action(device_id, action)\<close> is a pair. Given the calls made
  before it, the client either returns or raises: a ClientResponseError with the code and
  message of an error response of the hub, a ClientConnectorError when the hub cannot be
  reached, or any other exception. \<open>bond_action\<close> records the call and raises what the
  client raises.
\<close>

type_synonym call = "string \<times> action"

type_synonym bond = "call list \<Rightarrow> call \<Rightarrow> error option"

type_synonym outcome = "(error + unit) \<times> call list"

definition bond_action :: "bond \<Rightarrow> string \<Rightarrow> action \<Rightarrow> call list \<Rightarrow> outcome" where
  "bond_action b dev a calls =
     (case b calls (dev, a) of
        None \<Rightarrow> (Inr (), calls @ [(dev, a)])
      | Some e \<Rightarrow> (Inl e, calls @ [(dev, a)]))"

text \<open>Sequencing of two awaited statements: the second runs only when the first returned.\<close>

definition and_then :: "outcome \<Rightarrow> (call list \<Rightarrow> outcome) \<Rightarrow> outcome" where
  "and_then r f = (case fst r of Inl e \<Rightarrow> r | Inr u \<Rightarrow> f (snd r))"

text \<open>\<open>try: ... except ClientResponseError as ex: raise h(ex.code, ex.message)\<close>.\<close>

definition except_ClientResponseError :: "outcome \<Rightarrow> (int \<Rightarrow> string \<Rightarrow> error) \<Rightarrow> outcome" where
  "except_ClientResponseError r h =
     (case fst r of
        Inl (ClientResponseError code message) \<Rightarrow> (Inl (h code message), snd r)
      | _ \<Rightarrow> r)"

text \<open>
  The device snapshot (\<open>self._device.state\<close>), read with \<open>state.get\<close>: a missing key is
  \<open>None\<close>. The breeze entry is a triple of ints.
\<close>

record snapshot =
  sn_power :: "bool option"
  sn_speed :: "int option"
  sn_direction :: "int option"
  sn_breeze :: "(int \<times> int \<times> int) option"
  sn_fpfan_power :: "bool option"
  sn_fpfan_speed :: "int option"

record command =
  cmd_action :: action_name
  argument :: int

record BondDevice =
  device_id :: string
  props_max_speed :: "int option"
  state :: snapshot
  commands :: "command list"

text \<open>
  Modelled from the spec: \<open>BondDevice.find_commands\<close> is defined in utils.py, which is not
  among the sources; the spec describes it as the enumeration of the supported commands
  filtered by action kind.
\<close>

definition find_commands :: "BondDevice \<Rightarrow> action_name \<Rightarrow> command list" where
  "find_commands dev a = filter (\<lambda>cmd. cmd_action cmd = a) (commands dev)"

definition PRESET_MODE_BREEZE :: string where
  "PRESET_MODE_BREEZE = ''Breeze''"

subsection \<open>BondFan\<close>

text \<open>
  The fields \<open>_power\<close>, \<open>_speed\<close>, \<open>_direction\<close> and \<open>_attr_preset_mode\<close> of the class are
  \<open>fan_power\<close>, \<open>fan_speed\<close>, \<open>fan_direction\<close> and \<open>preset_mode\<close>; \<open>entity_id\<close> and
  \<open>_device\<close> come from the base entity.
\<close>

record BondFan =
  entity_id :: string
  device :: BondDevice
  fan_power :: "bool option"
  fan_speed :: "int option"
  fan_direction :: "int option"
  preset_mode :: "string option"

definition BondFan_apply_state :: "BondFan \<Rightarrow> BondFan" where
  "BondFan_apply_state self =
     (let st = state (device self);
          breeze = (case sn_breeze st of None \<Rightarrow> (0, 0, 0) | Some t \<Rightarrow> t)
      in self\<lparr>fan_power := sn_power st,
              fan_speed := sn_speed st,
              fan_direction := sn_direction st,
              preset_mode := (if fst breeze \<noteq> 0 then Some PRESET_MODE_BREEZE else None)\<rparr>)"

definition BondFan_speed_range :: "BondFan \<Rightarrow> int \<times> int" where
  "BondFan_speed_range self =
     (1, case props_max_speed (device self) of None \<Rightarrow> 3 | Some n \<Rightarrow> n)"

definition BondFan_percentage :: "BondFan \<Rightarrow> error + int" where
  "BondFan_percentage self =
     (if \<not> truthy_int (fan_speed self) \<or> \<not> truthy_bool (fan_power self) then Inr 0
      else case fan_speed self of
             None \<Rightarrow> Inr 0
           | Some v \<Rightarrow>
               (case ranged_value_to_percentage (BondFan_speed_range self) v of
                  Inl e \<Rightarrow> Inl e
                | Inr p \<Rightarrow> Inr (min 100 (max 0 p))))"

definition BondFan_async_turn_off :: "BondFan \<Rightarrow> bond \<Rightarrow> call list \<Rightarrow> outcome" where
  "BondFan_async_turn_off self b calls =
     (if preset_mode self = Some PRESET_MODE_BREEZE
      then and_then (bond_action b (device_id (device self)) (Action BREEZE_OFF PyNone) calls)
             (bond_action b (device_id (device self)) turn_off)
      else bond_action b (device_id (device self)) turn_off calls)"

definition BondFan_async_set_percentage :: "BondFan \<Rightarrow> int \<Rightarrow> bond \<Rightarrow> call list \<Rightarrow> outcome" where
  "BondFan_async_set_percentage self percentage b calls =
     (if percentage = 0 then BondFan_async_turn_off self b calls
      else let bond_speed = math_ceil (percentage_to_ranged_value (BondFan_speed_range self) percentage)
           in bond_action b (device_id (device self)) (set_speed bond_speed) calls)"

definition BondFan_async_set_power_belief :: "BondFan \<Rightarrow> bool \<Rightarrow> bond \<Rightarrow> call list \<Rightarrow> outcome" where
  "BondFan_async_set_power_belief self power_state b calls =
     except_ClientResponseError
       (bond_action b (device_id (device self)) (set_power_state_belief power_state) calls)
       (\<lambda>code message. HomeAssistantError
          (''The bond API returned an error calling set_power_state_belief for''
           @ '' '' @ entity_id self @ ''.  Code: '' @ str_int code
           @ ''  Message: '' @ message))"

definition BondFan_async_set_speed_belief :: "BondFan \<Rightarrow> int \<Rightarrow> bond \<Rightarrow> call list \<Rightarrow> outcome" where
  "BondFan_async_set_speed_belief self speed b calls =
     (if speed = 0 then BondFan_async_set_power_belief self False b calls
      else and_then (BondFan_async_set_power_belief self True b calls)
             (\<lambda>calls1.
                let bond_speed = math_ceil (percentage_to_ranged_value (BondFan_speed_range self) speed)
                in except_ClientResponseError
                     (bond_action b (device_id (device self)) (set_speed_belief bond_speed) calls1)
                     (\<lambda>code message. HomeAssistantError
                        (''The bond API returned an error calling set_speed_belief for''
                         @ '' '' @ entity_id self @ ''.  Code: '' @ str_int code
                         @ ''  Message: '' @ message))))"

subsection \<open>BondFireplaceFan\<close>

text \<open>
  The fields \<open>_power\<close>, \<open>_speed\<close> and \<open>_speeds\<close> of the class are \<open>fp_power\<close>, \<open>fp_speed\<close>
  and \<open>speeds\<close>; \<open>fp_entity_id\<close> and \<open>fp_device\<close> come from the base entity. The
  constructor is given the entity id the platform assigns.
\<close>

record BondFireplaceFan =
  fp_entity_id :: string
  fp_device :: BondDevice
  fp_power :: "bool option"
  fp_speed :: "int option"
  speeds :: "int list"

definition BondFireplaceFan_init :: "string \<Rightarrow> BondDevice \<Rightarrow> BondFireplaceFan" where
  "BondFireplaceFan_init eid dev =
     (let speed_cmds = find_commands dev SET_FP_FAN
      in \<lparr>fp_entity_id = eid, fp_device = dev, fp_power = None, fp_speed = None,
          speeds = sort (map argument speed_cmds)\<rparr>)"

definition BondFireplaceFan_speed_range :: "BondFireplaceFan \<Rightarrow> int \<times> int" where
  "BondFireplaceFan_speed_range self = (1, int (length (speeds self)))"

definition BondFireplaceFan_percentage :: "BondFireplaceFan \<Rightarrow> int" where
  "BondFireplaceFan_percentage self =
     (if \<not> truthy_int (fp_speed self) \<or> \<not> truthy_bool (fp_power self) then 0
      else case fp_speed self of None \<Rightarrow> 0 | Some v \<Rightarrow> v)"

definition to_bond_percentage :: "BondFireplaceFan \<Rightarrow> int \<Rightarrow> error + int" where
  "to_bond_percentage self percentage =
     (if percentage = 0 then Inr 0
      else let speed = math_ceil (percentage_to_ranged_value (BondFireplaceFan_speed_range self) percentage)
           in case getitem (speeds self) (speed - 1) of
                Inl e \<Rightarrow> Inl e
              | Inr v \<Rightarrow> Inr (min 100 v))"

definition from_bond_percentage :: "BondFireplaceFan \<Rightarrow> int option \<Rightarrow> error + int" where
  "from_bond_percentage self bond_percentage =
     (if \<not> truthy_int bond_percentage then Inr 0
      else case bond_percentage of
             None \<Rightarrow> Inr 0
           | Some v \<Rightarrow>
               (case list_index (speeds self) v of
                  None \<Rightarrow> Inl ValueError
                | Some speed \<Rightarrow>
                    (case ranged_value_to_percentage (BondFireplaceFan_speed_range self) (int speed + 1) of
                       Inl e \<Rightarrow> Inl e
                     | Inr p \<Rightarrow> Inr (min 100 (max 0 p)))))"

text \<open>
  \<open>_apply_state\<close> assigns \<open>_power\<close> before it converts the speed, so an exception of the
  conversion leaves the new power and the old speed behind.
\<close>

definition BondFireplaceFan_apply_state :: "BondFireplaceFan \<Rightarrow> (error + unit) \<times> BondFireplaceFan" where
  "BondFireplaceFan_apply_state self =
     (let st = state (fp_device self);
          self1 = self\<lparr>fp_power := sn_fpfan_power st\<rparr>
      in case from_bond_percentage self1 (sn_fpfan_speed st) of
           Inl e \<Rightarrow> (Inl e, self1)
         | Inr p \<Rightarrow> (Inr (), self1\<lparr>fp_speed := Some p\<rparr>))"

definition BondFireplaceFan_async_turn_off :: "BondFireplaceFan \<Rightarrow> bond \<Rightarrow> call list \<Rightarrow> outcome" where
  "BondFireplaceFan_async_turn_off self b calls =
     bond_action b (device_id (fp_device self)) (Action TURN_FP_FAN_OFF PyNone) calls"

definition BondFireplaceFan_async_set_percentage ::
  "BondFireplaceFan \<Rightarrow> int \<Rightarrow> bond \<Rightarrow> call list \<Rightarrow> outcome" where
  "BondFireplaceFan_async_set_percentage self percentage b calls =
     (if percentage = 0 then BondFireplaceFan_async_turn_off self b calls
      else case to_bond_percentage self percentage of
             Inl e \<Rightarrow> (Inl e, calls)
           | Inr v \<Rightarrow> bond_action b (device_id (fp_device self)) (Action SET_FP_FAN (PyInt v)) calls)"

definition BondFireplaceFan_async_set_power_belief ::
  "BondFireplaceFan \<Rightarrow> bool \<Rightarrow> bond \<Rightarrow> call list \<Rightarrow> outcome" where
  "BondFireplaceFan_async_set_power_belief self power_state b calls =
     except_ClientResponseError
       (bond_action b (device_id (fp_device self))
          (Action SET_STATE_BELIEF (PySet {|PyStr ''fpfan_power'', PyInt (int_of_bool power_state)|}))
          calls)
       (\<lambda>code message. HomeAssistantError
          (''The bond API returned an error calling set_fpfan_power_state_belief for''
           @ '' '' @ fp_entity_id self @ ''.  Code: '' @ str_int code
           @ ''  Message: '' @ message))"

definition BondFireplaceFan_async_set_speed_belief ::
  "BondFireplaceFan \<Rightarrow> int \<Rightarrow> bond \<Rightarrow> call list \<Rightarrow> outcome" where
  "BondFireplaceFan_async_set_speed_belief self speed b calls =
     (if speed = 0 then BondFireplaceFan_async_set_power_belief self False b calls
      else and_then (BondFireplaceFan_async_set_power_belief self True b calls)
             (\<lambda>calls1.
                except_ClientResponseError
                  (case to_bond_percentage self speed of
                     Inl e \<Rightarrow> (Inl e, calls1)
                   | Inr v \<Rightarrow>
                       bond_action b (device_id (fp_device self))
                         (Action SET_STATE_BELIEF (PySet {|PyStr ''fpfan_speed'', PyInt v|}))
                         calls1)
                  (\<lambda>code message. HomeAssistantError
                     (''The bond API returned an error calling set_fpfan_speed_belief for''
                      @ '' '' @ fp_entity_id self @ ''.  Code: '' @ str_int code
                      @ ''  Message: '' @ message))))"

subsection \<open>Observing a call\<close>

text \<open>
  The calls a method added to the record, and the exceptions the client raised while
  the record grew from \<open>calls\<close> to \<open>calls'\<close>.
\<close>

definition dispatched :: "call list \<Rightarrow> outcome \<Rightarrow> call list" where
  "dispatched calls r = drop (length calls) (snd r)"

definition transport_errors :: "bond \<Rightarrow> call list \<Rightarrow> call list \<Rightarrow> error list" where
  "transport_errors b calls calls' =
     concat (map (\<lambda>k. case b (take k calls') (calls' ! k) of None \<Rightarrow> [] | Some e \<Rightarrow> [e])
               [length calls ..< length calls'])"

text \<open>
  What the belief-state methods give their caller: the result is never a raw
  ClientResponseError, and for a ClientResponseError with \<open>code\<close> and \<open>message\<close> raised
  during the call the result is a HomeAssistantError whose text contains the code, the
  message and the entity id.
\<close>

definition is_ClientResponseError :: "error + unit \<Rightarrow> bool" where
  "is_ClientResponseError r =
     (case r of Inl (ClientResponseError code message) \<Rightarrow> True | _ \<Rightarrow> False)"

definition carries :: "error + unit \<Rightarrow> string \<Rightarrow> int \<Rightarrow> string \<Rightarrow> bool" where
  "carries r eid code message =
     (case r of
        Inl (HomeAssistantError text) \<Rightarrow>
          sublist (str_int code) text \<and> sublist message text \<and> sublist eid text
      | _ \<Rightarrow> False)"

definition belief_contract :: "string \<Rightarrow> bond \<Rightarrow> call list \<Rightarrow> outcome \<Rightarrow> int \<Rightarrow> string \<Rightarrow> bool" where
  "belief_contract eid b calls r code message =
     (\<not> is_ClientResponseError (fst r)
      \<and> (ClientResponseError code message \<in> set (transport_errors b calls (snd r))
           \<longrightarrow> carries (fst r) eid code message))"

text \<open>
  The fireplace round trip: a vendor value is converted to a percentage by
  \<open>_from_bond_percentage\<close> and that percentage back by \<open>_to_bond_percentage\<close>.
\<close>

definition bond_round_trip :: "BondFireplaceFan \<Rightarrow> int \<Rightarrow> error + int" where
  "bond_round_trip self v =
     (case from_bond_percentage self (Some v) of
        Inl e \<Rightarrow> Inl e
      | Inr percentage \<Rightarrow> to_bond_percentage self percentage)"

subsection \<open>Example devices\<close>

definition example_snapshot :: "bool option \<Rightarrow> int option \<Rightarrow> (int \<times> int \<times> int) option \<Rightarrow> snapshot" where
  "example_snapshot p s br =
     \<lparr>sn_power = p, sn_speed = s, sn_direction = None, sn_breeze = br,
      sn_fpfan_power = p, sn_fpfan_speed = s\<rparr>"

text \<open>A ceiling fan with three speeds, before its first \<open>_apply_state\<close>.\<close>

definition example_fan :: "snapshot \<Rightarrow> BondFan" where
  "example_fan st =
     \<lparr>entity_id = ''fan.ceiling'',
      device = \<lparr>device_id = ''fan1'', props_max_speed = Some 3, state = st, commands = []\<rparr>,
      fan_power = None, fan_speed = None, fan_direction = None, preset_mode = None\<rparr>"

text \<open>A fireplace whose device lists one \<open>SetFpFan\<close> command for each given argument.\<close>

definition fp_command :: "int \<Rightarrow> command" where
  "fp_command a = \<lparr>cmd_action = SET_FP_FAN, argument = a\<rparr>"

definition example_fireplace :: "int list \<Rightarrow> snapshot \<Rightarrow> BondFireplaceFan" where
  "example_fireplace args st =
     BondFireplaceFan_init ''fan.fireplace''
       \<lparr>device_id = ''fp1'', props_max_speed = None, state = st,
        commands = map fp_command args\<rparr>"

text \<open>
  A hub that accepts every call, one that answers every call with code 500, and one that
  cannot be reached.
\<close>

definition hub_ok :: bond where
  "hub_ok calls c = None"

definition hub_500 :: bond where
  "hub_500 calls c = Some (ClientResponseError 500 ''Internal Server Error'')"

definition hub_offline :: bond where
  "hub_offline calls c = Some (ClientConnectorError ''Cannot connect to host'')"

section \<open>Properties\<close>

subsection \<open>Percentage to step\<close>

lemma ranged_value_one: "percentage_to_ranged_value (1, N) p = of_int (N * p) / 100"
  by (simp add: percentage_to_ranged_value_def states_in_range_def)

lemma ceil_ranged_value: "math_ceil (percentage_to_ranged_value (1, N) p) = - ((- (N * p)) div 100)"
proof -
  have "\<lceil>(of_int (N * p) / 100 :: rat)\<rceil> = - \<lfloor>(of_int (- (N * p)) / of_int 100 :: rat)\<rfloor>"
    by (simp add: ceiling_def)
  also have "\<dots> = - ((- (N * p)) div 100)"
    by (simp only: floor_divide_of_int_eq)
  finally show ?thesis
    by (simp only: math_ceil_def ranged_value_one)
qed

lemma floor_ranged_value: "math_floor (percentage_to_ranged_value (1, N) p) = (N * p) div 100"
proof -
  have "\<lfloor>(of_int (N * p) / of_int 100 :: rat)\<rfloor> = (N * p) div 100"
    by (simp only: floor_divide_of_int_eq)
  then show ?thesis
    by (simp add: math_floor_def ranged_value_one)
qed

lemma step_lower:
  assumes "1 \<le> N" "1 \<le> p"
  shows "1 \<le> math_ceil (percentage_to_ranged_value (1, N) p)"
proof -
  have "0 < N * p" using assms by simp
  then have "(- (N * p)) div 100 < 0" by simp
  then show ?thesis by (simp add: ceil_ranged_value)
qed

lemma step_upper:
  assumes "0 \<le> N" "p \<le> 100"
  shows "math_ceil (percentage_to_ranged_value (1, N) p) \<le> N"
proof -
  have "N * p \<le> N * 100" using assms by (simp add: mult_left_mono)
  then have "(- N) * 100 \<le> - (N * p)" by simp
  then have "((- N) * 100) div 100 \<le> (- (N * p)) div 100" by (rule zdiv_mono1) simp
  then have "- N \<le> (- (N * p)) div 100" by simp
  then show ?thesis by (simp add: ceil_ranged_value)
qed

lemma step_mono:
  assumes "0 \<le> N" "p \<le> q"
  shows "math_ceil (percentage_to_ranged_value (1, N) p)
           \<le> math_ceil (percentage_to_ranged_value (1, N) q)"
proof -
  have "N * p \<le> N * q" using assms by (simp add: mult_left_mono)
  then have "(- (N * q)) div 100 \<le> (- (N * p)) div 100" by (simp add: zdiv_mono1)
  then show ?thesis by (simp add: ceil_ranged_value)
qed

lemma step_ge_floor:
  "math_floor (percentage_to_ranged_value (1, N) p) \<le> math_ceil (percentage_to_ranged_value (1, N) p)"
  unfolding math_floor_def math_ceil_def by (rule floor_le_ceiling)

text \<open>
  Claim C1. For a speed range \<open>(1, N)\<close> with \<open>N \<ge> 1\<close> and percentages \<open>p \<le> q\<close> in
  \<open>[1, 100]\<close>, the step \<open>math.ceil(percentage_to_ranged_value((1, N), p))\<close> lies in
  \<open>[1, N]\<close>, is no larger than the step of \<open>q\<close>, and is at least the step that rounding the
  same linear mapping down would give.
\<close>

theorem percentage_to_step_ceiling:
  assumes "1 \<le> N" and "1 \<le> p" and "p \<le> q" and "q \<le> 100"
  shows "1 \<le> math_ceil (percentage_to_ranged_value (1, N) p)
       \<and> math_ceil (percentage_to_ranged_value (1, N) p) \<le> N
       \<and> math_ceil (percentage_to_ranged_value (1, N) p)
           \<le> math_ceil (percentage_to_ranged_value (1, N) q)
       \<and> math_floor (percentage_to_ranged_value (1, N) p)
           \<le> math_ceil (percentage_to_ranged_value (1, N) p)"
proof -
  have "0 \<le> N" and "p \<le> 100" using assms by simp_all
  then show ?thesis
    using assms step_lower step_upper step_mono step_ge_floor by simp
qed

theorem percentage_to_step_ceiling_witness:
  "(1::int) \<le> 3 \<and> (1::int) \<le> 34 \<and> (34::int) \<le> 50 \<and> (50::int) \<le> 100
   \<and> math_ceil (percentage_to_ranged_value (1, 3) 34) = 2
   \<and> math_ceil (percentage_to_ranged_value (1, 3) 50) = 2
   \<and> math_floor (percentage_to_ranged_value (1, 3) 34) = 1
   \<and> 1 \<le> math_ceil (percentage_to_ranged_value (1, 3) 34)
   \<and> math_ceil (percentage_to_ranged_value (1, 3) 34) \<le> 3
   \<and> math_ceil (percentage_to_ranged_value (1, 3) 34)
       \<le> math_ceil (percentage_to_ranged_value (1, 3) 50)
   \<and> math_floor (percentage_to_ranged_value (1, 3) 34)
       \<le> math_ceil (percentage_to_ranged_value (1, 3) 34)"
  using percentage_to_step_ceiling [of 3 34 50]
  by (simp add: ceil_ranged_value floor_ranged_value)

subsection \<open>Calls to the hub\<close>

lemma bond_action_calls: "snd (bond_action b dev a calls) = calls @ [(dev, a)]"
  by (simp add: bond_action_def split: option.splits)

lemma bond_action_raises:
  "b calls (dev, a) = Some e \<Longrightarrow> bond_action b dev a calls = (Inl e, calls @ [(dev, a)])"
  by (simp add: bond_action_def)

lemma and_then_Inl: "and_then (Inl e, cs) f = (Inl e, cs)"
  by (simp add: and_then_def)

lemma except_Inl: "fst (except_ClientResponseError (Inl e, cs) h) \<noteq> Inr u"
  by (simp add: except_ClientResponseError_def split: error.splits)

lemma and_then_except_Inl:
  "and_then (except_ClientResponseError (Inl e, cs) h) f = except_ClientResponseError (Inl e, cs) h"
  by (simp add: and_then_def except_ClientResponseError_def split: error.splits)

lemma bond_action_ok: "b calls (dev, a) = None \<Longrightarrow> bond_action b dev a calls = (Inr (), calls @ [(dev, a)])"
  by (simp add: bond_action_def)

lemma except_Inr: "except_ClientResponseError (Inr u, cs) h = (Inr u, cs)"
  by (simp add: except_ClientResponseError_def)

lemma and_then_Inr: "and_then (Inr u, cs) f = f cs"
  by (simp add: and_then_def)

lemma snd_except: "snd (except_ClientResponseError r h) = snd r"
  by (simp add: except_ClientResponseError_def split: sum.splits error.splits)

lemma dispatched_wrapped:
  "dispatched calls (except_ClientResponseError (bond_action b dev a calls) h) = [(dev, a)]"
  by (simp add: dispatched_def snd_except bond_action_calls)

lemma dispatched_wrapped_two:
  assumes "b calls (dev, a1) = None"
  shows "dispatched calls
           (and_then (except_ClientResponseError (bond_action b dev a1 calls) h1)
              (\<lambda>calls1. except_ClientResponseError (bond_action b dev a2 calls1) h2))
         = [(dev, a1), (dev, a2)]"
  using assms
  by (simp add: bond_action_ok except_Inr and_then_Inr dispatched_def snd_except bond_action_calls)

text \<open>
  Claim C2. On both adapters \<open>async_set_percentage(0)\<close> is \<open>async_turn_off\<close>: it returns
  what turn-off returns and the calls it makes are turn-off calls only (for the standard
  fan BREEZE_OFF, if the preset is active, and TurnOff; for the fireplace TurnFpFanOff), so
  no speed is computed or sent.
\<close>

theorem set_percentage_zero_turns_off:
  "BondFan_async_set_percentage fan 0 b calls = BondFan_async_turn_off fan b calls
   \<and> dispatched calls (BondFan_async_set_percentage fan 0 b calls)
       \<in> {[(device_id (device fan), Action BREEZE_OFF PyNone)],
           [(device_id (device fan), Action BREEZE_OFF PyNone), (device_id (device fan), turn_off)],
           [(device_id (device fan), turn_off)]}
   \<and> BondFireplaceFan_async_set_percentage fp 0 b calls = BondFireplaceFan_async_turn_off fp b calls
   \<and> dispatched calls (BondFireplaceFan_async_set_percentage fp 0 b calls)
       = [(device_id (fp_device fp), Action TURN_FP_FAN_OFF PyNone)]"
  by (simp add: BondFan_async_set_percentage_def BondFireplaceFan_async_set_percentage_def
      BondFan_async_turn_off_def BondFireplaceFan_async_turn_off_def dispatched_def
      and_then_def bond_action_def split: option.splits prod.splits)

text \<open>
  Claim C5, as amended. With the breeze preset active, \<open>BondFan.async_turn_off\<close> calls
  the hub with BREEZE_OFF first and, when that call returns, with TurnOff: two calls in this
  order. When the BREEZE_OFF call raises, the exception ends the method and TurnOff is not
  sent. Without the preset the method makes the one TurnOff call.
\<close>

theorem turn_off_dispatches:
  "(preset_mode fan = Some PRESET_MODE_BREEZE
      \<and> b calls (device_id (device fan), Action BREEZE_OFF PyNone) = None
    \<longrightarrow> dispatched calls (BondFan_async_turn_off fan b calls)
          = [(device_id (device fan), Action BREEZE_OFF PyNone), (device_id (device fan), turn_off)])
   \<and> (preset_mode fan = Some PRESET_MODE_BREEZE
      \<and> b calls (device_id (device fan), Action BREEZE_OFF PyNone) = Some e
    \<longrightarrow> BondFan_async_turn_off fan b calls
          = (Inl e, calls @ [(device_id (device fan), Action BREEZE_OFF PyNone)]))
   \<and> (preset_mode fan \<noteq> Some PRESET_MODE_BREEZE
    \<longrightarrow> dispatched calls (BondFan_async_turn_off fan b calls) = [(device_id (device fan), turn_off)])"
proof -
  let ?dev = "device_id (device fan)"
  have two: "dispatched calls (BondFan_async_turn_off fan b calls)
          = [(?dev, Action BREEZE_OFF PyNone), (?dev, turn_off)]"
    if "preset_mode fan = Some PRESET_MODE_BREEZE \<and> b calls (?dev, Action BREEZE_OFF PyNone) = None"
    using that
    by (simp add: BondFan_async_turn_off_def bond_action_ok and_then_Inr dispatched_def
        bond_action_calls)
  have stop: "BondFan_async_turn_off fan b calls = (Inl e, calls @ [(?dev, Action BREEZE_OFF PyNone)])"
    if "preset_mode fan = Some PRESET_MODE_BREEZE \<and> b calls (?dev, Action BREEZE_OFF PyNone) = Some e"
    using that
    by (simp add: BondFan_async_turn_off_def bond_action_raises and_then_Inl)
  have one: "dispatched calls (BondFan_async_turn_off fan b calls) = [(?dev, turn_off)]"
    if "preset_mode fan \<noteq> Some PRESET_MODE_BREEZE"
    using that
    by (simp add: BondFan_async_turn_off_def dispatched_def bond_action_calls)
  from two stop one show ?thesis by (intro conjI impI)
qed

theorem turn_off_dispatches_witness:
  "preset_mode (BondFan_apply_state (example_fan (example_snapshot (Some True) (Some 2) (Some (1, 50, 50)))))
     = Some PRESET_MODE_BREEZE
   \<and> hub_ok [] (''fan1'', Action BREEZE_OFF PyNone) = None
   \<and> dispatched []
        (BondFan_async_turn_off
           (BondFan_apply_state (example_fan (example_snapshot (Some True) (Some 2) (Some (1, 50, 50)))))
           hub_ok [])
      = [(''fan1'', Action BREEZE_OFF PyNone), (''fan1'', turn_off)]
   \<and> hub_offline [] (''fan1'', Action BREEZE_OFF PyNone)
      = Some (ClientConnectorError ''Cannot connect to host'')
   \<and> BondFan_async_turn_off
        (BondFan_apply_state (example_fan (example_snapshot (Some True) (Some 2) (Some (1, 50, 50)))))
        hub_offline []
      = (Inl (ClientConnectorError ''Cannot connect to host''),
         [(''fan1'', Action BREEZE_OFF PyNone)])
   \<and> preset_mode (BondFan_apply_state (example_fan (example_snapshot (Some True) (Some 2) None)))
     \<noteq> Some PRESET_MODE_BREEZE
   \<and> dispatched []
        (BondFan_async_turn_off
           (BondFan_apply_state (example_fan (example_snapshot (Some True) (Some 2) None)))
           hub_ok [])
      = [(''fan1'', turn_off)]"
proof -
  let ?A = "BondFan_apply_state (example_fan (example_snapshot (Some True) (Some 2) (Some (1, 50, 50))))"
  let ?B = "BondFan_apply_state (example_fan (example_snapshot (Some True) (Some 2) None))"
  let ?e = "ClientConnectorError ''Cannot connect to host''"
  have dA: "device_id (device ?A) = ''fan1''" and dB: "device_id (device ?B) = ''fan1''"
    by (simp_all add: BondFan_apply_state_def example_fan_def Let_def)
  have pA: "preset_mode ?A = Some PRESET_MODE_BREEZE"
    by (simp add: BondFan_apply_state_def example_fan_def example_snapshot_def Let_def)
  have ok: "hub_ok [] (device_id (device ?A), Action BREEZE_OFF PyNone) = None"
    by (simp add: hub_ok_def)
  have off: "hub_offline [] (device_id (device ?A), Action BREEZE_OFF PyNone) = Some ?e"
    by (simp add: hub_offline_def)
  have hB: "preset_mode ?B \<noteq> Some PRESET_MODE_BREEZE"
    by (simp add: BondFan_apply_state_def example_fan_def example_snapshot_def Let_def)
  note cA = turn_off_dispatches [of ?A hub_ok "[]", THEN conjunct1, THEN mp, OF conjI, OF pA ok]
  note cE = turn_off_dispatches [of ?A hub_offline "[]" ?e, THEN conjunct2, THEN conjunct1,
              THEN mp, OF conjI, OF pA off]
  note cB = turn_off_dispatches [of ?B hub_ok "[]", THEN conjunct2, THEN conjunct2, THEN mp, OF hB]
  from pA ok cA off cE hB cB show ?thesis
    unfolding dA dB by (intro conjI) simp_all
qed

text \<open>
  With the preset active and a hub that answers 500, the method makes the BREEZE_OFF call
  only and ends in the error.
\<close>

theorem turn_off_one_dispatch_counterexample:
  "preset_mode (BondFan_apply_state (example_fan (example_snapshot (Some True) (Some 2) (Some (1, 50, 50)))))
     = Some PRESET_MODE_BREEZE
   \<and> BondFan_async_turn_off
        (BondFan_apply_state (example_fan (example_snapshot (Some True) (Some 2) (Some (1, 50, 50)))))
        hub_500 []
      = (Inl (ClientResponseError 500 ''Internal Server Error''),
         [(''fan1'', Action BREEZE_OFF PyNone)])
   \<and> dispatched []
        (BondFan_async_turn_off
           (BondFan_apply_state (example_fan (example_snapshot (Some True) (Some 2) (Some (1, 50, 50)))))
           hub_500 [])
      \<noteq> [(''fan1'', Action BREEZE_OFF PyNone), (''fan1'', turn_off)]"
  by (simp add: BondFan_async_turn_off_def BondFan_apply_state_def example_fan_def
      example_snapshot_def Let_def hub_500_def bond_action_def and_then_Inl dispatched_def)

subsection \<open>The projected percentage\<close>

text \<open>
  Claim C4. On both adapters the \<open>percentage\<close> property is 0 whenever the power flag or
  the speed is falsy (\<open>None\<close>, \<open>False\<close> or 0): for the adapter's fields as they stand,
  and so after applying any snapshot whose power flag or speed is falsy, whatever the other
  one holds. For the fireplace this also covers an \<open>_apply_state\<close> that raised.
\<close>

theorem percentage_zero_when_off:
  "(\<not> truthy_bool (sn_power (state (device fan))) \<or> \<not> truthy_int (sn_speed (state (device fan)))
     \<longrightarrow> BondFan_percentage (BondFan_apply_state fan) = Inr 0)
   \<and> (\<not> truthy_bool (fan_power fan') \<or> \<not> truthy_int (fan_speed fan')
     \<longrightarrow> BondFan_percentage fan' = Inr 0)
   \<and> (\<not> truthy_bool (sn_fpfan_power (state (fp_device fp)))
       \<or> \<not> truthy_int (sn_fpfan_speed (state (fp_device fp)))
     \<longrightarrow> BondFireplaceFan_percentage (snd (BondFireplaceFan_apply_state fp)) = 0)
   \<and> (\<not> truthy_bool (fp_power fp') \<or> \<not> truthy_int (fp_speed fp')
     \<longrightarrow> BondFireplaceFan_percentage fp' = 0)"
  by (auto simp add: BondFan_percentage_def BondFan_apply_state_def Let_def
      BondFireplaceFan_percentage_def BondFireplaceFan_apply_state_def from_bond_percentage_def
      split: sum.splits option.splits)

text \<open>
  The snapshot \<open>{power: false, speed: 3}\<close> on a fan of range \<open>(1, 3)\<close>, and a fireplace
  that is off while its snapshot still reports the top speed.
\<close>

theorem percentage_zero_when_off_witness:
  "\<not> truthy_bool (sn_power (state (device (example_fan (example_snapshot (Some False) (Some 3) None)))))
   \<and> truthy_int (sn_speed (state (device (example_fan (example_snapshot (Some False) (Some 3) None)))))
   \<and> BondFan_speed_range (example_fan (example_snapshot (Some False) (Some 3) None)) = (1, 3)
   \<and> BondFan_percentage (BondFan_apply_state (example_fan (example_snapshot (Some False) (Some 3) None)))
       = Inr 0
   \<and> \<not> truthy_bool (fan_power (BondFan_apply_state (example_fan (example_snapshot (Some False) (Some 3) None))))
   \<and> \<not> truthy_bool (sn_fpfan_power (state (fp_device
         (example_fireplace [33, 66, 100] (example_snapshot (Some False) (Some 100) None)))))
   \<and> fp_speed (snd (BondFireplaceFan_apply_state
         (example_fireplace [33, 66, 100] (example_snapshot (Some False) (Some 100) None)))) = Some 100
   \<and> BondFireplaceFan_percentage (snd (BondFireplaceFan_apply_state
         (example_fireplace [33, 66, 100] (example_snapshot (Some False) (Some 100) None)))) = 0
   \<and> \<not> truthy_bool (fp_power (snd (BondFireplaceFan_apply_state
         (example_fireplace [33, 66, 100] (example_snapshot (Some False) (Some 100) None)))))"
proof -
  let ?F = "example_fan (example_snapshot (Some False) (Some 3) None)"
  let ?P = "example_fireplace [33, 66, 100] (example_snapshot (Some False) (Some 100) None)"
  have h1: "\<not> truthy_bool (sn_power (state (device ?F)))"
    and h1': "truthy_int (sn_speed (state (device ?F)))"
    and r: "BondFan_speed_range ?F = (1, 3)"
    by (simp_all add: example_fan_def example_snapshot_def BondFan_speed_range_def)
  have h2: "\<not> truthy_bool (fan_power (BondFan_apply_state ?F))"
    by (simp add: example_fan_def example_snapshot_def BondFan_apply_state_def Let_def)
  have h3: "\<not> truthy_bool (sn_fpfan_power (state (fp_device ?P)))"
    by (simp add: example_fireplace_def example_snapshot_def BondFireplaceFan_init_def)
  have h4: "\<not> truthy_bool (fp_power (snd (BondFireplaceFan_apply_state ?P)))"
    and s4: "fp_speed (snd (BondFireplaceFan_apply_state ?P)) = Some 100"
    by code_simp+
  note t = percentage_zero_when_off
    [of ?F "BondFan_apply_state ?F" ?P "snd (BondFireplaceFan_apply_state ?P)"]
  note c1 = t [THEN conjunct1, THEN mp, OF disjI1, OF h1]
  note c2 = t [THEN conjunct2, THEN conjunct1, THEN mp, OF disjI1, OF h2]
  note c3 = t [THEN conjunct2, THEN conjunct2, THEN conjunct1, THEN mp, OF disjI1, OF h3]
  note c4 = t [THEN conjunct2, THEN conjunct2, THEN conjunct2, THEN mp, OF disjI1, OF h4]
  from h1 h1' r c1 c2 h2 h3 s4 c3 c4 h4 show ?thesis by (intro conjI)
qed

subsection \<open>Belief-state calls\<close>

lemma speeds_init: "speeds (BondFireplaceFan_init eid dev) = sort (map argument (find_commands dev SET_FP_FAN))"
  by (simp add: BondFireplaceFan_init_def)

lemma speeds_example: "speeds (example_fireplace args st) = sort args"
  by (simp add: example_fireplace_def speeds_init find_commands_def fp_command_def comp_def)

lemma to_bond_percentage_step:
  assumes "1 \<le> s" and "s \<le> 100" and "speeds fp \<noteq> []"
  shows "to_bond_percentage fp s
         = Inr (min 100 (speeds fp !
                  nat (math_ceil (percentage_to_ranged_value (BondFireplaceFan_speed_range fp) s) - 1)))"
proof -
  let ?N = "int (length (speeds fp))"
  let ?k = "math_ceil (percentage_to_ranged_value (1, ?N) s)"
  have N: "1 \<le> ?N" using assms(3) by (cases "speeds fp") simp_all
  have "1 \<le> ?k" using N assms(1) by (rule step_lower)
  moreover have "?k \<le> ?N" using N assms(2) by (intro step_upper) simp_all
  ultimately have "getitem (speeds fp) (?k - 1) = Inr (speeds fp ! nat (?k - 1))"
    by (simp add: getitem_def)
  then show ?thesis
    using assms(1) by (simp add: to_bond_percentage_def BondFireplaceFan_speed_range_def)
qed


lemma and_then_stop: "fst r \<noteq> Inr () \<Longrightarrow> and_then r f = r"
  by (cases "fst r") (simp_all add: and_then_def)

lemma refused_belief:
  "b calls (dev, a) = Some e \<Longrightarrow>
   fst (except_ClientResponseError (bond_action b dev a calls) h) \<noteq> Inr ()"
  by (simp add: bond_action_raises except_Inl)

lemma int_of_bool_simps: "int_of_bool False = 0" "int_of_bool True = 1"
  by (simp_all add: int_of_bool_def)

lemma fan_belief_zero:
  "BondFan_async_set_speed_belief fan 0 b calls = BondFan_async_set_power_belief fan False b calls"
  by (simp add: BondFan_async_set_speed_belief_def)

lemma fan_power_belief_calls:
  "dispatched calls (BondFan_async_set_power_belief fan p b calls)
   = [(device_id (device fan), set_power_state_belief p)]"
  unfolding BondFan_async_set_power_belief_def by (rule dispatched_wrapped)

lemma fan_belief_two:
  "s \<noteq> 0 \<and> b calls (device_id (device fan), set_power_state_belief True) = None
   \<longrightarrow> dispatched calls (BondFan_async_set_speed_belief fan s b calls)
       = [(device_id (device fan), set_power_state_belief True),
          (device_id (device fan),
           set_speed_belief (math_ceil (percentage_to_ranged_value (BondFan_speed_range fan) s)))]"
proof (intro impI, elim conjE)
  assume s: "s \<noteq> 0" and ok: "b calls (device_id (device fan), set_power_state_belief True) = None"
  from s show "dispatched calls (BondFan_async_set_speed_belief fan s b calls)
       = [(device_id (device fan), set_power_state_belief True),
          (device_id (device fan),
           set_speed_belief (math_ceil (percentage_to_ranged_value (BondFan_speed_range fan) s)))]"
    unfolding BondFan_async_set_speed_belief_def BondFan_async_set_power_belief_def Let_def
    by (simp only: if_False) (rule dispatched_wrapped_two, rule ok)
qed

lemma fan_belief_refused:
  "s \<noteq> 0 \<and> b calls (device_id (device fan), set_power_state_belief True) = Some e
   \<longrightarrow> BondFan_async_set_speed_belief fan s b calls
         = BondFan_async_set_power_belief fan True b calls
     \<and> dispatched calls (BondFan_async_set_speed_belief fan s b calls)
         = [(device_id (device fan), set_power_state_belief True)]"
proof (intro impI, elim conjE)
  assume s: "s \<noteq> 0"
    and no: "b calls (device_id (device fan), set_power_state_belief True) = Some e"
  have "fst (BondFan_async_set_power_belief fan True b calls) \<noteq> Inr ()"
    unfolding BondFan_async_set_power_belief_def using no by (rule refused_belief)
  with s have eq: "BondFan_async_set_speed_belief fan s b calls
                   = BondFan_async_set_power_belief fan True b calls"
    by (simp add: BondFan_async_set_speed_belief_def and_then_stop)
  show "BondFan_async_set_speed_belief fan s b calls
         = BondFan_async_set_power_belief fan True b calls
     \<and> dispatched calls (BondFan_async_set_speed_belief fan s b calls)
         = [(device_id (device fan), set_power_state_belief True)]"
    unfolding eq using fan_power_belief_calls by simp
qed

lemma fp_belief_zero:
  "BondFireplaceFan_async_set_speed_belief fp 0 b calls
   = BondFireplaceFan_async_set_power_belief fp False b calls"
  by (simp add: BondFireplaceFan_async_set_speed_belief_def)

lemma fp_power_belief_calls:
  "dispatched calls (BondFireplaceFan_async_set_power_belief fp p b calls)
   = [(device_id (fp_device fp),
       Action SET_STATE_BELIEF (PySet {|PyStr ''fpfan_power'', PyInt (int_of_bool p)|}))]"
  unfolding BondFireplaceFan_async_set_power_belief_def by (rule dispatched_wrapped)

lemma fp_belief_two:
  "1 \<le> s \<and> s \<le> 100 \<and> speeds fp \<noteq> []
     \<and> b calls (device_id (fp_device fp),
                 Action SET_STATE_BELIEF (PySet {|PyStr ''fpfan_power'', PyInt 1|})) = None
   \<longrightarrow> to_bond_percentage fp s
         = Inr (min 100 (speeds fp !
                  nat (math_ceil (percentage_to_ranged_value (BondFireplaceFan_speed_range fp) s) - 1)))
     \<and> dispatched calls (BondFireplaceFan_async_set_speed_belief fp s b calls)
         = [(device_id (fp_device fp),
             Action SET_STATE_BELIEF (PySet {|PyStr ''fpfan_power'', PyInt 1|})),
            (device_id (fp_device fp),
             Action SET_STATE_BELIEF
               (PySet {|PyStr ''fpfan_speed'',
                        PyInt (min 100 (speeds fp !
                          nat (math_ceil (percentage_to_ranged_value
                                 (BondFireplaceFan_speed_range fp) s) - 1)))|}))]"
proof (intro impI, elim conjE)
  assume s: "1 \<le> s" "s \<le> 100" "speeds fp \<noteq> []"
    and ok: "b calls (device_id (fp_device fp),
                 Action SET_STATE_BELIEF (PySet {|PyStr ''fpfan_power'', PyInt 1|})) = None"
  note tb = to_bond_percentage_step [OF s]
  have "s \<noteq> 0" using s(1) by simp
  then have "dispatched calls (BondFireplaceFan_async_set_speed_belief fp s b calls)
         = [(device_id (fp_device fp),
             Action SET_STATE_BELIEF (PySet {|PyStr ''fpfan_power'', PyInt 1|})),
            (device_id (fp_device fp),
             Action SET_STATE_BELIEF
               (PySet {|PyStr ''fpfan_speed'',
                        PyInt (min 100 (speeds fp !
                          nat (math_ceil (percentage_to_ranged_value
                                 (BondFireplaceFan_speed_range fp) s) - 1)))|}))]"
    unfolding BondFireplaceFan_async_set_speed_belief_def
      BondFireplaceFan_async_set_power_belief_def tb int_of_bool_simps
    by (simp only: if_False sum.case) (rule dispatched_wrapped_two, rule ok)
  with tb show "to_bond_percentage fp s
         = Inr (min 100 (speeds fp !
                  nat (math_ceil (percentage_to_ranged_value (BondFireplaceFan_speed_range fp) s) - 1)))
     \<and> dispatched calls (BondFireplaceFan_async_set_speed_belief fp s b calls)
         = [(device_id (fp_device fp),
             Action SET_STATE_BELIEF (PySet {|PyStr ''fpfan_power'', PyInt 1|})),
            (device_id (fp_device fp),
             Action SET_STATE_BELIEF
               (PySet {|PyStr ''fpfan_speed'',
                        PyInt (min 100 (speeds fp !
                          nat (math_ceil (percentage_to_ranged_value
                                 (BondFireplaceFan_speed_range fp) s) - 1)))|}))]"
    by (intro conjI)
qed

lemma fp_belief_refused:
  "s \<noteq> 0
     \<and> b calls (device_id (fp_device fp),
                 Action SET_STATE_BELIEF (PySet {|PyStr ''fpfan_power'', PyInt 1|})) = Some e
   \<longrightarrow> BondFireplaceFan_async_set_speed_belief fp s b calls
         = BondFireplaceFan_async_set_power_belief fp True b calls
     \<and> dispatched calls (BondFireplaceFan_async_set_speed_belief fp s b calls)
         = [(device_id (fp_device fp),
             Action SET_STATE_BELIEF (PySet {|PyStr ''fpfan_power'', PyInt 1|}))]"
proof (intro impI, elim conjE)
  assume s: "s \<noteq> 0"
    and no: "b calls (device_id (fp_device fp),
                 Action SET_STATE_BELIEF (PySet {|PyStr ''fpfan_power'', PyInt 1|})) = Some e"
  have "fst (BondFireplaceFan_async_set_power_belief fp True b calls) \<noteq> Inr ()"
    unfolding BondFireplaceFan_async_set_power_belief_def int_of_bool_simps
    using no by (rule refused_belief)
  with s have eq: "BondFireplaceFan_async_set_speed_belief fp s b calls
                   = BondFireplaceFan_async_set_power_belief fp True b calls"
    by (simp add: BondFireplaceFan_async_set_speed_belief_def and_then_stop)
  show "BondFireplaceFan_async_set_speed_belief fp s b calls
         = BondFireplaceFan_async_set_power_belief fp True b calls
     \<and> dispatched calls (BondFireplaceFan_async_set_speed_belief fp s b calls)
         = [(device_id (fp_device fp),
             Action SET_STATE_BELIEF (PySet {|PyStr ''fpfan_power'', PyInt 1|}))]"
    unfolding eq using fp_power_belief_calls [of calls fp True b] by (simp add: int_of_bool_simps)
qed

text \<open>
  Claim C6, as amended. On both adapters \<open>async_set_speed_belief(0)\<close> is
  \<open>async_set_power_belief(False)\<close> and makes its one call. For a nonzero speed the power
  belief with \<open>True\<close> is sent first. When that call raises, the method ends as
  \<open>async_set_power_belief(True)\<close> does and nothing else is sent. When it returns, the
  standard fan sends the speed belief with the step
  \<open>math.ceil(percentage_to_ranged_value(range, s))\<close>, two calls in this order; the
  fireplace, for \<open>s\<close> in \<open>[1, 100]\<close> and a non-empty step table, sends the
  \<open>fpfan_speed\<close> belief with the table entry of that step, capped at 100, again two
  calls in this order.
\<close>

theorem speed_belief_dispatches:
  "BondFan_async_set_speed_belief fan 0 b calls = BondFan_async_set_power_belief fan False b calls
   \<and> dispatched calls (BondFan_async_set_speed_belief fan 0 b calls)
       = [(device_id (device fan), set_power_state_belief False)]
   \<and> (s \<noteq> 0 \<and> b calls (device_id (device fan), set_power_state_belief True) = None
      \<longrightarrow> dispatched calls (BondFan_async_set_speed_belief fan s b calls)
            = [(device_id (device fan), set_power_state_belief True),
               (device_id (device fan),
                set_speed_belief (math_ceil (percentage_to_ranged_value (BondFan_speed_range fan) s)))])
   \<and> (s \<noteq> 0 \<and> b calls (device_id (device fan), set_power_state_belief True) = Some e
      \<longrightarrow> BondFan_async_set_speed_belief fan s b calls
            = BondFan_async_set_power_belief fan True b calls
          \<and> dispatched calls (BondFan_async_set_speed_belief fan s b calls)
            = [(device_id (device fan), set_power_state_belief True)])
   \<and> BondFireplaceFan_async_set_speed_belief fp 0 b calls
       = BondFireplaceFan_async_set_power_belief fp False b calls
   \<and> dispatched calls (BondFireplaceFan_async_set_speed_belief fp 0 b calls)
       = [(device_id (fp_device fp),
           Action SET_STATE_BELIEF (PySet {|PyStr ''fpfan_power'', PyInt 0|}))]
   \<and> (1 \<le> s \<and> s \<le> 100 \<and> speeds fp \<noteq> []
       \<and> b calls (device_id (fp_device fp),
                   Action SET_STATE_BELIEF (PySet {|PyStr ''fpfan_power'', PyInt 1|})) = None
      \<longrightarrow> to_bond_percentage fp s
            = Inr (min 100 (speeds fp !
                     nat (math_ceil (percentage_to_ranged_value (BondFireplaceFan_speed_range fp) s) - 1)))
          \<and> dispatched calls (BondFireplaceFan_async_set_speed_belief fp s b calls)
            = [(device_id (fp_device fp),
                Action SET_STATE_BELIEF (PySet {|PyStr ''fpfan_power'', PyInt 1|})),
               (device_id (fp_device fp),
                Action SET_STATE_BELIEF
                  (PySet {|PyStr ''fpfan_speed'',
                           PyInt (min 100 (speeds fp !
                             nat (math_ceil (percentage_to_ranged_value
                                    (BondFireplaceFan_speed_range fp) s) - 1)))|}))])
   \<and> (s \<noteq> 0
       \<and> b calls (device_id (fp_device fp),
                   Action SET_STATE_BELIEF (PySet {|PyStr ''fpfan_power'', PyInt 1|})) = Some e
      \<longrightarrow> BondFireplaceFan_async_set_speed_belief fp s b calls
            = BondFireplaceFan_async_set_power_belief fp True b calls
          \<and> dispatched calls (BondFireplaceFan_async_set_speed_belief fp s b calls)
            = [(device_id (fp_device fp),
                Action SET_STATE_BELIEF (PySet {|PyStr ''fpfan_power'', PyInt 1|}))])"
proof -
  have fan0: "dispatched calls (BondFan_async_set_speed_belief fan 0 b calls)
       = [(device_id (device fan), set_power_state_belief False)]"
    unfolding fan_belief_zero by (rule fan_power_belief_calls)
  have fp0: "dispatched calls (BondFireplaceFan_async_set_speed_belief fp 0 b calls)
       = [(device_id (fp_device fp),
           Action SET_STATE_BELIEF (PySet {|PyStr ''fpfan_power'', PyInt 0|}))]"
    unfolding fp_belief_zero using fp_power_belief_calls [of calls fp False b]
    by (simp add: int_of_bool_simps)
  from fan_belief_zero fan0 fan_belief_two fan_belief_refused fp_belief_zero fp0
    fp_belief_two fp_belief_refused
  show ?thesis by (intro conjI)
qed

text \<open>
  On devices of three steps a believed speed of 50 is step 2, the vendor value 66; a hub
  answering 500 ends the method after the power belief.
\<close>

theorem speed_belief_dispatches_witness:
  "(50::int) \<noteq> 0 \<and> (1::int) \<le> 50 \<and> (50::int) \<le> 100
   \<and> hub_ok [] (''fan1'', set_power_state_belief True) = None
   \<and> dispatched [] (BondFan_async_set_speed_belief
         (example_fan (example_snapshot None None None)) 50 hub_ok [])
       = [(''fan1'', set_power_state_belief True), (''fan1'', set_speed_belief 2)]
   \<and> hub_500 [] (''fan1'', set_power_state_belief True)
       = Some (ClientResponseError 500 ''Internal Server Error'')
   \<and> dispatched [] (BondFan_async_set_speed_belief
         (example_fan (example_snapshot None None None)) 50 hub_500 [])
       = [(''fan1'', set_power_state_belief True)]
   \<and> speeds (example_fireplace [33, 66, 100] (example_snapshot None None None)) = [33, 66, 100]
   \<and> hub_ok [] (''fp1'', Action SET_STATE_BELIEF (PySet {|PyStr ''fpfan_power'', PyInt 1|})) = None
   \<and> to_bond_percentage (example_fireplace [33, 66, 100] (example_snapshot None None None)) 50 = Inr 66
   \<and> dispatched [] (BondFireplaceFan_async_set_speed_belief
         (example_fireplace [33, 66, 100] (example_snapshot None None None)) 50 hub_ok [])
       = [(''fp1'', Action SET_STATE_BELIEF (PySet {|PyStr ''fpfan_power'', PyInt 1|})),
          (''fp1'', Action SET_STATE_BELIEF (PySet {|PyStr ''fpfan_speed'', PyInt 66|}))]
   \<and> hub_500 [] (''fp1'', Action SET_STATE_BELIEF (PySet {|PyStr ''fpfan_power'', PyInt 1|}))
       = Some (ClientResponseError 500 ''Internal Server Error'')
   \<and> dispatched [] (BondFireplaceFan_async_set_speed_belief
         (example_fireplace [33, 66, 100] (example_snapshot None None None)) 50 hub_500 [])
       = [(''fp1'', Action SET_STATE_BELIEF (PySet {|PyStr ''fpfan_power'', PyInt 1|}))]"
proof -
  let ?F = "example_fan (example_snapshot None None None)"
  let ?P = "example_fireplace [33, 66, 100] (example_snapshot None None None)"
  let ?e = "ClientResponseError 500 ''Internal Server Error''"
  have dF: "device_id (device ?F) = ''fan1''" by (simp add: example_fan_def)
  have dP: "device_id (fp_device ?P) = ''fp1''"
    by (simp add: example_fireplace_def BondFireplaceFan_init_def)
  have sp: "speeds ?P = [33, 66, 100]" by (simp add: speeds_example)
  have ok: "hub_ok [] c = None" for c by (simp add: hub_ok_def)
  have no: "hub_500 [] c = Some ?e" for c by (simp add: hub_500_def)
  have n: "(50::int) \<noteq> 0" and r: "(1::int) \<le> 50" "(50::int) \<le> 100" by simp_all
  have ne: "speeds ?P \<noteq> []" by (simp add: sp)
  have stepF: "math_ceil (percentage_to_ranged_value (BondFan_speed_range ?F) 50) = 2"
    by (simp add: BondFan_speed_range_def example_fan_def ceil_ranged_value)
  have stepP: "min 100 (speeds ?P ! nat (math_ceil (percentage_to_ranged_value
                  (BondFireplaceFan_speed_range ?P) 50) - 1)) = 66"
    by (simp add: BondFireplaceFan_speed_range_def sp ceil_ranged_value)
  note t = speed_belief_dispatches [where fan = ?F and fp = ?P and s = 50 and calls = "[]"]
  note cF = t [where b = hub_ok, THEN conjunct2, THEN conjunct2, THEN conjunct1, THEN mp,
               OF conjI, OF n ok, unfolded stepF dF]
  note rF = t [where b = hub_500 and e = ?e, THEN conjunct2, THEN conjunct2, THEN conjunct2,
               THEN conjunct1, THEN mp, OF conjI, OF n no, THEN conjunct2, unfolded dF]
  note cP = t [where b = hub_ok, THEN conjunct2, THEN conjunct2, THEN conjunct2, THEN conjunct2,
               THEN conjunct2, THEN conjunct2, THEN conjunct1, THEN mp,
               OF conjI, OF r(1) conjI, OF r(2) conjI, OF ne ok, unfolded stepP dP]
  note rP = t [where b = hub_500 and e = ?e, THEN conjunct2, THEN conjunct2, THEN conjunct2,
               THEN conjunct2, THEN conjunct2, THEN conjunct2, THEN conjunct2, THEN mp,
               OF conjI, OF n no, THEN conjunct2, unfolded dP]
  from n r ok [of "(''fan1'', set_power_state_belief True)"] cF
    no [of "(''fan1'', set_power_state_belief True)"] rF sp
    ok [of "(''fp1'', Action SET_STATE_BELIEF (PySet {|PyStr ''fpfan_power'', PyInt 1|}))"]
    cP [THEN conjunct1] cP [THEN conjunct2]
    no [of "(''fp1'', Action SET_STATE_BELIEF (PySet {|PyStr ''fpfan_power'', PyInt 1|}))"] rP
  show ?thesis by (intro conjI)
qed

lemma to_bond_percentage_empty:
  "s \<noteq> 0 \<Longrightarrow> speeds fp = [] \<Longrightarrow> to_bond_percentage fp s = Inl IndexError"
  by (simp add: to_bond_percentage_def BondFireplaceFan_speed_range_def ceil_ranged_value
      getitem_def)

text \<open>
  Three inputs at which a nonzero believed speed does not give two calls ending in the
  step: the fireplace sends the vendor value 66 where the step is 2; a fireplace without
  \<open>SetFpFan\<close> commands raises IndexError after the power belief; and with a hub answering
  500 the power belief is the only call.
\<close>

theorem speed_belief_dispatches_counterexample:
  "math_ceil (percentage_to_ranged_value
      (BondFireplaceFan_speed_range (example_fireplace [33, 66, 100] (example_snapshot None None None)))
      50) = 2
   \<and> dispatched [] (BondFireplaceFan_async_set_speed_belief
         (example_fireplace [33, 66, 100] (example_snapshot None None None)) 50 hub_ok [])
       = [(''fp1'', Action SET_STATE_BELIEF (PySet {|PyStr ''fpfan_power'', PyInt 1|})),
          (''fp1'', Action SET_STATE_BELIEF (PySet {|PyStr ''fpfan_speed'', PyInt 66|}))]
   \<and> BondFireplaceFan_async_set_speed_belief
         (example_fireplace [] (example_snapshot None None None)) 50 hub_ok []
       = (Inl IndexError,
          [(''fp1'', Action SET_STATE_BELIEF (PySet {|PyStr ''fpfan_power'', PyInt 1|}))])
   \<and> BondFan_async_set_speed_belief (example_fan (example_snapshot None None None)) 50 hub_500 []
       = (Inl (HomeAssistantError
            ''The bond API returned an error calling set_power_state_belief for fan.ceiling.  Code: 500  Message: Internal Server Error''),
          [(''fan1'', set_power_state_belief True)])"
proof -
  let ?P = "example_fireplace [33, 66, 100] (example_snapshot None None None)"
  let ?E = "example_fireplace [] (example_snapshot None None None)"
  let ?F = "example_fan (example_snapshot None None None)"
  have sp: "speeds ?P = [33, 66, 100]" and spE: "speeds ?E = []" by (simp_all add: speeds_example)
  have dP: "device_id (fp_device ?P) = ''fp1''" and dE: "device_id (fp_device ?E) = ''fp1''"
    by (simp_all add: example_fireplace_def BondFireplaceFan_init_def)
  have ok: "hub_ok cs c = None" for cs c by (simp add: hub_ok_def)
  have step: "math_ceil (percentage_to_ranged_value (BondFireplaceFan_speed_range ?P) 50) = 2"
    by (simp add: BondFireplaceFan_speed_range_def sp ceil_ranged_value)
  have tb: "to_bond_percentage ?P 50 = Inr 66"
    by (simp add: to_bond_percentage_def BondFireplaceFan_speed_range_def sp ceil_ranged_value
        getitem_def)
  have two: "dispatched [] (BondFireplaceFan_async_set_speed_belief ?P 50 hub_ok [])
       = [(''fp1'', Action SET_STATE_BELIEF (PySet {|PyStr ''fpfan_power'', PyInt 1|})),
          (''fp1'', Action SET_STATE_BELIEF (PySet {|PyStr ''fpfan_speed'', PyInt 66|}))]"
    unfolding BondFireplaceFan_async_set_speed_belief_def
      BondFireplaceFan_async_set_power_belief_def dP int_of_bool_simps tb
    by (simp only: sum.case) (simp add: dispatched_wrapped_two ok)
  have tbE: "to_bond_percentage ?E 50 = Inl IndexError"
    by (rule to_bond_percentage_empty) (simp_all add: spE)
  have empty: "BondFireplaceFan_async_set_speed_belief ?E 50 hub_ok []
       = (Inl IndexError,
          [(''fp1'', Action SET_STATE_BELIEF (PySet {|PyStr ''fpfan_power'', PyInt 1|}))])"
    unfolding BondFireplaceFan_async_set_speed_belief_def
      BondFireplaceFan_async_set_power_belief_def dE int_of_bool_simps tbE
    by (simp add: bond_action_ok ok except_Inr and_then_Inr except_ClientResponseError_def)
  have refused: "BondFan_async_set_speed_belief ?F 50 hub_500 []
       = (Inl (HomeAssistantError
            ''The bond API returned an error calling set_power_state_belief for fan.ceiling.  Code: 500  Message: Internal Server Error''),
          [(''fan1'', set_power_state_belief True)])"
    by code_simp
  from step two empty refused show ?thesis by (intro conjI)
qed

lemma transport_errors_one:
  "transport_errors b calls (calls @ [c]) = (case b calls c of None \<Rightarrow> [] | Some e \<Rightarrow> [e])"
  by (simp add: transport_errors_def)

lemma transport_errors_two:
  "transport_errors b calls (calls @ [c, d]) =
     (case b calls c of None \<Rightarrow> [] | Some e \<Rightarrow> [e])
     @ (case b (calls @ [c]) d of None \<Rightarrow> [] | Some e \<Rightarrow> [e])"
proof -
  have "[length calls ..< length (calls @ [c, d])] = [length calls, Suc (length calls)]"
    by (simp add: upt_rec)
  then show ?thesis
    by (simp add: transport_errors_def nth_append)
qed

lemma carries_text:
  "carries (Inl (HomeAssistantError (pre @ '' '' @ eid @ ''.  Code: '' @ str_int code @ ''  Message: '' @ message)))
     eid code message"
proof -
  let ?t = "pre @ '' '' @ eid @ ''.  Code: '' @ str_int code @ ''  Message: '' @ message"
  have "sublist (str_int code) ((pre @ '' '' @ eid @ ''.  Code: '') @ str_int code @ (''  Message: '' @ message))"
    by (rule sublist_appendI)
  moreover have "sublist message ((pre @ '' '' @ eid @ ''.  Code: '' @ str_int code @ ''  Message: '') @ message)"
    by (rule sublist_append_leftI)
  moreover have "sublist eid ((pre @ '' '') @ eid @ (''.  Code: '' @ str_int code @ ''  Message: '' @ message))"
    by (rule sublist_appendI)
  ultimately show ?thesis by (simp add: carries_def)
qed


lemma wrapped_one:
  assumes h: "\<And>c m. carries (Inl (h c m)) eid c m"
  shows "belief_contract eid b calls (except_ClientResponseError (bond_action b dev a calls) h) code message"
proof (cases "b calls (dev, a)")
  case None
  then show ?thesis
    by (simp add: belief_contract_def bond_action_ok except_Inr is_ClientResponseError_def
        transport_errors_one)
next
  case (Some e)
  note ba = bond_action_raises [where b = b and calls = calls and dev = dev and a = a, OF Some]
  show ?thesis
  proof (cases e)
    case (ClientResponseError c m)
    have car: "carries (Inl (h c m)) eid c m" by (rule h)
    then have "\<not> is_ClientResponseError (Inl (h c m))"
      by (cases "h c m") (simp_all add: carries_def is_ClientResponseError_def)
    with car show ?thesis
      using Some ClientResponseError
      by (auto simp add: belief_contract_def ba except_ClientResponseError_def transport_errors_one)
  qed (use Some in \<open>simp_all add: belief_contract_def ba except_ClientResponseError_def
        is_ClientResponseError_def transport_errors_one\<close>)
qed

lemma belief_contract_shift:
  assumes "b calls c = None" and "snd r = calls @ [c, d]"
  shows "belief_contract eid b calls r code message
         = belief_contract eid b (calls @ [c]) r code message"
proof -
  have "transport_errors b calls (calls @ [c, d]) = transport_errors b (calls @ [c]) ((calls @ [c]) @ [d])"
    unfolding transport_errors_one transport_errors_two using assms(1) by simp
  then show ?thesis
    using assms(2) by (simp add: belief_contract_def)
qed

lemma wrapped_two:
  assumes h1: "\<And>c m. carries (Inl (h1 c m)) eid c m"
    and h2: "\<And>c m. carries (Inl (h2 c m)) eid c m"
  shows "belief_contract eid b calls
           (and_then (except_ClientResponseError (bond_action b dev a1 calls) h1)
              (\<lambda>calls1. except_ClientResponseError (bond_action b dev a2 calls1) h2))
           code message"
proof (cases "b calls (dev, a1)")
  case (Some e)
  then have "fst (except_ClientResponseError (bond_action b dev a1 calls) h1) \<noteq> Inr ()"
    by (rule refused_belief)
  then have "and_then (except_ClientResponseError (bond_action b dev a1 calls) h1)
              (\<lambda>calls1. except_ClientResponseError (bond_action b dev a2 calls1) h2)
        = except_ClientResponseError (bond_action b dev a1 calls) h1"
    by (rule and_then_stop)
  then show ?thesis using wrapped_one [OF h1] by simp
next
  case None
  then have first: "and_then (except_ClientResponseError (bond_action b dev a1 calls) h1)
              (\<lambda>calls1. except_ClientResponseError (bond_action b dev a2 calls1) h2)
        = except_ClientResponseError (bond_action b dev a2 (calls @ [(dev, a1)])) h2"
    by (simp add: bond_action_ok except_Inr and_then_Inr)
  have "snd (except_ClientResponseError (bond_action b dev a2 (calls @ [(dev, a1)])) h2)
        = calls @ [(dev, a1), (dev, a2)]"
    by (simp add: snd_except bond_action_calls)
  note shift = belief_contract_shift
    [where b = b and calls = calls and c = "(dev, a1)" and d = "(dev, a2)", OF None this]
  show ?thesis
    unfolding first shift by (rule wrapped_one) (rule h2)
qed

lemma fan_power_belief_contract:
  "belief_contract (entity_id fan) b calls (BondFan_async_set_power_belief fan p b calls) code message"
  unfolding BondFan_async_set_power_belief_def
  by (rule wrapped_one) (rule carries_text)

lemma fan_speed_belief_contract:
  "belief_contract (entity_id fan) b calls (BondFan_async_set_speed_belief fan s b calls) code message"
proof (cases "s = 0")
  case True
  then show ?thesis
    using fan_power_belief_contract [of fan b calls False code message]
    by (simp add: BondFan_async_set_speed_belief_def)
next
  case False
  then show ?thesis
    unfolding BondFan_async_set_speed_belief_def BondFan_async_set_power_belief_def Let_def if_False
    by (simp only: if_False) (rule wrapped_two; rule carries_text)
qed

lemma to_bond_percentage_error: "to_bond_percentage fp p = Inl e \<Longrightarrow> e = IndexError"
  by (auto simp add: to_bond_percentage_def getitem_def Let_def split: if_splits sum.splits)

lemma fp_power_belief_contract:
  "belief_contract (fp_entity_id fp) b calls (BondFireplaceFan_async_set_power_belief fp p b calls) code message"
  unfolding BondFireplaceFan_async_set_power_belief_def
  by (rule wrapped_one) (rule carries_text)


lemma fp_speed_belief_contract:
  "belief_contract (fp_entity_id fp) b calls (BondFireplaceFan_async_set_speed_belief fp s b calls) code message"
proof (cases "s = 0")
  case True
  then show ?thesis
    using fp_power_belief_contract [of fp b calls False code message]
    by (simp add: BondFireplaceFan_async_set_speed_belief_def)
next
  case False
  show ?thesis
  proof (cases "to_bond_percentage fp s")
    case (Inr v)
    with False show ?thesis
      unfolding BondFireplaceFan_async_set_speed_belief_def BondFireplaceFan_async_set_power_belief_def
      by (simp only: if_False sum.case) (rule wrapped_two; rule carries_text)
  next
    case (Inl e)
    then have e: "e = IndexError" by (rule to_bond_percentage_error)
    let ?a = "Action SET_STATE_BELIEF (PySet {|PyStr ''fpfan_power'', PyInt (int_of_bool True)|})"
    let ?dev = "device_id (fp_device fp)"
    show ?thesis
    proof (cases "b calls (?dev, ?a)")
      case None
      then show ?thesis
        using False Inl e
        by (simp add: BondFireplaceFan_async_set_speed_belief_def
            BondFireplaceFan_async_set_power_belief_def bond_action_ok except_Inr and_then_Inr
            except_ClientResponseError_def belief_contract_def is_ClientResponseError_def
            transport_errors_one)
    next
      case (Some x)
      have "fst (BondFireplaceFan_async_set_power_belief fp True b calls) \<noteq> Inr ()"
        unfolding BondFireplaceFan_async_set_power_belief_def using Some by (rule refused_belief)
      with False have "BondFireplaceFan_async_set_speed_belief fp s b calls
                      = BondFireplaceFan_async_set_power_belief fp True b calls"
        by (simp add: BondFireplaceFan_async_set_speed_belief_def and_then_stop)
      then show ?thesis
        using fp_power_belief_contract [of fp b calls True code message] by simp
    qed
  qed
qed

text \<open>
  Claim C7, as amended. For each of the four belief-state methods, whatever the client
  does: the method never ends in a raw ClientResponseError, and a ClientResponseError with
  \<open>code\<close> and \<open>message\<close> raised during the call ends the method in a HomeAssistantError
  whose text contains the code, the message and the entity id.
\<close>

theorem belief_errors_wrapped:
  "belief_contract (entity_id fan) b calls (BondFan_async_set_power_belief fan p b calls) code message
   \<and> belief_contract (entity_id fan) b calls (BondFan_async_set_speed_belief fan s b calls) code message
   \<and> belief_contract (fp_entity_id fp) b calls
       (BondFireplaceFan_async_set_power_belief fp p b calls) code message
   \<and> belief_contract (fp_entity_id fp) b calls
       (BondFireplaceFan_async_set_speed_belief fp s b calls) code message"
  using fan_power_belief_contract fan_speed_belief_contract fp_power_belief_contract
    fp_speed_belief_contract by (intro conjI)

text \<open>A hub that answers with code 500.\<close>

theorem belief_errors_wrapped_witness:
  "ClientResponseError 500 ''Internal Server Error''
     \<in> set (transport_errors hub_500 []
              (snd (BondFan_async_set_speed_belief
                      (example_fan (example_snapshot None None None)) 50 hub_500 [])))
   \<and> carries
        (fst (BondFan_async_set_speed_belief
                (example_fan (example_snapshot None None None)) 50 hub_500 []))
        ''fan.ceiling'' 500 ''Internal Server Error''
   \<and> fst (BondFan_async_set_speed_belief
             (example_fan (example_snapshot None None None)) 50 hub_500 [])
       = Inl (HomeAssistantError
           ''The bond API returned an error calling set_power_state_belief for fan.ceiling.  Code: 500  Message: Internal Server Error'')
   \<and> ClientResponseError 500 ''Internal Server Error''
     \<in> set (transport_errors hub_500 []
              (snd (BondFireplaceFan_async_set_power_belief
                      (example_fireplace [33, 66, 100] (example_snapshot None None None))
                      True hub_500 [])))
   \<and> carries
        (fst (BondFireplaceFan_async_set_power_belief
                (example_fireplace [33, 66, 100] (example_snapshot None None None)) True hub_500 []))
        ''fan.fireplace'' 500 ''Internal Server Error''"
proof -
  let ?F = "example_fan (example_snapshot None None None)"
  let ?P = "example_fireplace [33, 66, 100] (example_snapshot None None None)"
  have eF: "entity_id ?F = ''fan.ceiling''" by (simp add: example_fan_def)
  have eP: "fp_entity_id ?P = ''fan.fireplace''"
    by (simp add: example_fireplace_def BondFireplaceFan_init_def)
  have hF: "ClientResponseError 500 ''Internal Server Error''
     \<in> set (transport_errors hub_500 [] (snd (BondFan_async_set_speed_belief ?F 50 hub_500 [])))"
    by code_simp
  have hP: "ClientResponseError 500 ''Internal Server Error''
     \<in> set (transport_errors hub_500 []
              (snd (BondFireplaceFan_async_set_power_belief ?P True hub_500 [])))"
    by code_simp
  have msg: "fst (BondFan_async_set_speed_belief ?F 50 hub_500 [])
       = Inl (HomeAssistantError
           ''The bond API returned an error calling set_power_state_belief for fan.ceiling.  Code: 500  Message: Internal Server Error'')"
    by code_simp
  note t = belief_errors_wrapped [of ?F hub_500 "[]" True 500 "''Internal Server Error''" 50 ?P]
  note cF = t [THEN conjunct2, THEN conjunct1, unfolded belief_contract_def, THEN conjunct2,
               THEN mp, OF hF, unfolded eF]
  note cP = t [THEN conjunct2, THEN conjunct2, THEN conjunct1, unfolded belief_contract_def,
               THEN conjunct2, THEN mp, OF hP, unfolded eP]
  from hF cF msg hP cP show ?thesis by (intro conjI)
qed

text \<open>
  A hub that cannot be reached: the client raises ClientConnectorError, which the
  \<open>except ClientResponseError\<close> clauses do not catch, so the belief-state methods end in the
  raw exception.
\<close>

theorem belief_connector_error_counterexample:
  "BondFan_async_set_power_belief (example_fan (example_snapshot None None None)) True hub_offline []
     = (Inl (ClientConnectorError ''Cannot connect to host''),
        [(''fan1'', set_power_state_belief True)])
   \<and> BondFan_async_set_speed_belief (example_fan (example_snapshot None None None)) 50 hub_offline []
     = (Inl (ClientConnectorError ''Cannot connect to host''),
        [(''fan1'', set_power_state_belief True)])
   \<and> fst (BondFireplaceFan_async_set_power_belief
        (example_fireplace [33, 66, 100] (example_snapshot None None None)) True hub_offline [])
     = Inl (ClientConnectorError ''Cannot connect to host'')
   \<and> fst (BondFireplaceFan_async_set_speed_belief
        (example_fireplace [33, 66, 100] (example_snapshot None None None)) 50 hub_offline [])
     = Inl (ClientConnectorError ''Cannot connect to host'')"
  by code_simp

subsection \<open>The step table\<close>

text \<open>
  Claim C8, as amended. The step table is the ascending sort of the arguments of the
  device's \<open>SetFpFan\<close> commands and keeps every repetition: it is sorted, it has the
  arguments with their multiplicities, and it is strictly ascending exactly when the
  arguments are pairwise distinct.
\<close>

theorem step_table_sorted:
  "sorted (speeds (BondFireplaceFan_init eid dev))
   \<and> mset (speeds (BondFireplaceFan_init eid dev)) = mset (map argument (find_commands dev SET_FP_FAN))
   \<and> (sorted_wrt (<) (speeds (BondFireplaceFan_init eid dev))
        = distinct (map argument (find_commands dev SET_FP_FAN)))"
  by (simp add: speeds_init strict_sorted_iff)

text \<open>
  A device that lists the argument 66 twice gets the table \<open>[33, 66, 66]\<close>, which is
  neither strictly ascending nor free of duplicates.
\<close>

theorem step_table_duplicates_counterexample:
  "speeds (example_fireplace [66, 33, 66] (example_snapshot None None None)) = [33, 66, 66]
   \<and> \<not> sorted_wrt (<) (speeds (example_fireplace [66, 33, 66] (example_snapshot None None None)))
   \<and> \<not> distinct (speeds (example_fireplace [66, 33, 66] (example_snapshot None None None)))"
  by (simp add: speeds_example)

subsection \<open>Vendor value to percentage and back\<close>


lemma list_index_Some:
  "v \<in> set xs \<Longrightarrow> \<exists>i<length xs. list_index xs v = Some i \<and> xs ! i = v"
proof (induction xs)
  case Nil
  then show ?case by simp
next
  case (Cons x xs)
  show ?case
  proof (cases "x = v")
    case True
    then show ?thesis by simp
  next
    case False
    with Cons obtain i where "i < length xs" "list_index xs v = Some i" "xs ! i = v"
      by auto
    with False show ?thesis by auto
  qed
qed

lemma getitem_nat: "i < length xs \<Longrightarrow> getitem xs (int i) = Inr (xs ! i)"
  by (simp add: getitem_def)

lemma ceil_between:
  fixes a k :: int
  assumes "k * 100 < a" and "a \<le> (k + 1) * 100"
  shows "- ((- a) div 100) = k + 1"
proof -
  have "- a = 100 * (- (k + 1)) + ((k + 1) * 100 - a)" by simp
  moreover have "0 \<le> (k + 1) * 100 - a" using assms by simp
  moreover have "(k + 1) * 100 - a < 100" using assms by simp
  ultimately have "(- a) div 100 = - (k + 1)" by (rule int_div_pos_eq)
  then show ?thesis by simp
qed

lemma floor_percentage_bounds:
  fixes N k :: int
  assumes "0 < N"
  shows "N * ((k * 100) div N) \<le> k * 100" and "k * 100 < N * ((k * 100) div N) + N"
proof -
  have eq: "N * ((k * 100) div N) + (k * 100) mod N = k * 100"
    by (rule mult_div_mod_eq)
  have "0 \<le> (k * 100) mod N" and "(k * 100) mod N < N"
    using assms by simp_all
  with eq show "N * ((k * 100) div N) \<le> k * 100" and "k * 100 < N * ((k * 100) div N) + N"
    by linarith+
qed

lemma step_of_index:
  fixes N k :: int
  assumes "1 \<le> k" and "k \<le> N" and "N \<le> 100"
  shows "math_ceil (percentage_to_ranged_value (1, N) ((k * 100) div N)) = k"
    and "1 \<le> (k * 100) div N" and "(k * 100) div N \<le> 100"
proof -
  have N: "0 < N" using assms by simp
  let ?p = "(k * 100) div N"
  note b = floor_percentage_bounds [OF N, of k]
  have "(k - 1) * 100 < N * ?p" using b(2) assms(3) by (simp add: algebra_simps)
  moreover have "N * ?p \<le> ((k - 1) + 1) * 100" using b(1) by simp
  ultimately have "- ((- (N * ?p)) div 100) = (k - 1) + 1" by (rule ceil_between)
  then show "math_ceil (percentage_to_ranged_value (1, N) ?p) = k"
    by (simp add: ceil_ranged_value)
  have "N * 1 \<le> k * 100" using assms by simp
  then have "(N * 1) div N \<le> ?p" by (rule zdiv_mono1) (rule N)
  then show "1 \<le> ?p" using N by simp
  have "k * 100 \<le> N * 100" using assms by simp
  then have "?p \<le> (N * 100) div N" by (rule zdiv_mono1) (rule N)
  then show "?p \<le> 100" using N by simp
qed

lemma from_bond_percentage_member:
  assumes "v \<noteq> 0" and "i < length (speeds fp)" and "list_index (speeds fp) v = Some i"
  shows "ranged_value_to_percentage (BondFireplaceFan_speed_range fp) (int i + 1)
           = Inr (((int i + 1) * 100) div int (length (speeds fp)))"
    and "from_bond_percentage fp (Some v)
           = Inr (min 100 (max 0 (((int i + 1) * 100) div int (length (speeds fp)))))"
proof -
  have "speeds fp \<noteq> []" using assms(2) by auto
  with assms show "ranged_value_to_percentage (BondFireplaceFan_speed_range fp) (int i + 1)
           = Inr (((int i + 1) * 100) div int (length (speeds fp)))"
    and "from_bond_percentage fp (Some v)
           = Inr (min 100 (max 0 (((int i + 1) * 100) div int (length (speeds fp)))))"
    by (simp_all add: from_bond_percentage_def ranged_value_to_percentage_def
        BondFireplaceFan_speed_range_def states_in_range_def)
qed



text \<open>
  Claim C3, as amended. For a step table of at most 100 entries and a member \<open>v\<close> of it,
  converting \<open>v\<close> to a percentage and back gives \<open>min(100, v)\<close>, hence \<open>v\<close> itself when
  \<open>v \<le> 100\<close>; and for \<open>v \<noteq> 0\<close> the step computed on the way back is the index of
  \<open>v\<close> plus one, whatever the size of \<open>v\<close>.
\<close>

theorem bond_round_trip_members:
  assumes "v \<in> set (speeds fp)" and "length (speeds fp) \<le> 100"
  shows "bond_round_trip fp v = Inr (min 100 v)
       \<and> (v \<le> 100 \<longrightarrow> bond_round_trip fp v = Inr v)
       \<and> (v \<noteq> 0 \<longrightarrow>
            (\<exists>i p. list_index (speeds fp) v = Some i
               \<and> from_bond_percentage fp (Some v) = Inr p
               \<and> math_ceil (percentage_to_ranged_value (BondFireplaceFan_speed_range fp) p)
                   = int i + 1))"
proof (cases "v = 0")
  case True
  then show ?thesis
    by (simp add: bond_round_trip_def from_bond_percentage_def to_bond_percentage_def)
next
  case False
  from list_index_Some [OF assms(1)]
  obtain i where i: "i < length (speeds fp)" "list_index (speeds fp) v = Some i"
    "speeds fp ! i = v"
    by auto
  let ?N = "int (length (speeds fp))"
  let ?p = "((int i + 1) * 100) div ?N"
  have k: "1 \<le> int i + 1" "int i + 1 \<le> ?N" "?N \<le> 100"
    using i(1) assms(2) by simp_all
  note st = step_of_index [OF k]
  have "from_bond_percentage fp (Some v) = Inr (min 100 (max 0 ?p))"
    by (rule from_bond_percentage_member(2) [OF False i(1,2)])
  then have fr: "from_bond_percentage fp (Some v) = Inr ?p"
    using st(2,3) by simp
  have "to_bond_percentage fp ?p = Inr (min 100 (speeds fp ! i))"
    using st i(1) getitem_nat [OF i(1)]
    by (simp add: to_bond_percentage_def BondFireplaceFan_speed_range_def)
  then have "to_bond_percentage fp ?p = Inr (min 100 v)"
    using i(3) by simp
  with fr have rt: "bond_round_trip fp v = Inr (min 100 v)"
    by (simp add: bond_round_trip_def)
  then have rt': "v \<le> 100 \<longrightarrow> bond_round_trip fp v = Inr v"
    by simp
  have step: "math_ceil (percentage_to_ranged_value (BondFireplaceFan_speed_range fp) ?p) = int i + 1"
    using st(1) by (simp add: BondFireplaceFan_speed_range_def)
  have "\<exists>i p. list_index (speeds fp) v = Some i
               \<and> from_bond_percentage fp (Some v) = Inr p
               \<and> math_ceil (percentage_to_ranged_value (BondFireplaceFan_speed_range fp) p)
                   = int i + 1"
    by (intro exI conjI) (rule i(2) fr step)+
  then have ix: "v \<noteq> 0 \<longrightarrow>
            (\<exists>i p. list_index (speeds fp) v = Some i
               \<and> from_bond_percentage fp (Some v) = Inr p
               \<and> math_ceil (percentage_to_ranged_value (BondFireplaceFan_speed_range fp) p)
                   = int i + 1)"
    by (rule impI)
  from rt rt' ix show ?thesis by (intro conjI)
qed

text \<open>
  On the table \<open>[33, 66, 100]\<close> the member 66 has index 1, converts to 66 percent, and
  comes back through step 2 as 66. On \<open>[50, 150]\<close> the member 150 has index 1 and comes
  back through step 2 as well.
\<close>

theorem bond_round_trip_members_witness:
  "66 \<in> set (speeds (example_fireplace [33, 66, 100] (example_snapshot None None None)))
   \<and> length (speeds (example_fireplace [33, 66, 100] (example_snapshot None None None))) \<le> 100
   \<and> (66::int) \<le> 100 \<and> (66::int) \<noteq> 0
   \<and> bond_round_trip (example_fireplace [33, 66, 100] (example_snapshot None None None)) 66 = Inr 66
   \<and> list_index (speeds (example_fireplace [33, 66, 100] (example_snapshot None None None))) 66
       = Some 1
   \<and> from_bond_percentage (example_fireplace [33, 66, 100] (example_snapshot None None None)) (Some 66)
       = Inr 66
   \<and> math_ceil (percentage_to_ranged_value
        (BondFireplaceFan_speed_range (example_fireplace [33, 66, 100] (example_snapshot None None None)))
        66) = 2
   \<and> 150 \<in> set (speeds (example_fireplace [150, 50] (example_snapshot None None None)))
   \<and> length (speeds (example_fireplace [150, 50] (example_snapshot None None None))) \<le> 100
   \<and> (150::int) \<noteq> 0
   \<and> list_index (speeds (example_fireplace [150, 50] (example_snapshot None None None))) 150
       = Some 1
   \<and> from_bond_percentage (example_fireplace [150, 50] (example_snapshot None None None)) (Some 150)
       = Inr 100
   \<and> math_ceil (percentage_to_ranged_value
        (BondFireplaceFan_speed_range (example_fireplace [150, 50] (example_snapshot None None None)))
        100) = 2"
proof -
  let ?P = "example_fireplace [33, 66, 100] (example_snapshot None None None)"
  let ?Q = "example_fireplace [150, 50] (example_snapshot None None None)"
  have sp: "speeds ?P = [33, 66, 100]" and sq: "speeds ?Q = [50, 150]"
    by (simp_all add: speeds_example)
  have h1: "66 \<in> set (speeds ?P)" and h2: "length (speeds ?P) \<le> 100"
    and h3: "(66::int) \<le> 100" and h4: "(66::int) \<noteq> 0"
    by (simp_all add: sp)
  have g1: "150 \<in> set (speeds ?Q)" and g2: "length (speeds ?Q) \<le> 100"
    and g4: "(150::int) \<noteq> 0"
    by (simp_all add: sq)
  have ixP: "list_index (speeds ?P) 66 = Some 1" by (simp add: sp)
  have ixQ: "list_index (speeds ?Q) 150 = Some 1" by (simp add: sq)
  have frP: "from_bond_percentage ?P (Some 66) = Inr 66"
    and frQ: "from_bond_percentage ?Q (Some 150) = Inr 100"
    by (simp_all add: from_bond_percentage_def sp sq ranged_value_to_percentage_def
        BondFireplaceFan_speed_range_def states_in_range_def)
  note tP = bond_round_trip_members [OF h1 h2]
  note tQ = bond_round_trip_members [OF g1 g2]
  note rt = tP [THEN conjunct2, THEN conjunct1, THEN mp, OF h3]
  from tP [THEN conjunct2, THEN conjunct2, THEN mp, OF h4]
  obtain i p where "list_index (speeds ?P) 66 = Some i"
    and "from_bond_percentage ?P (Some 66) = Inr p"
    and "math_ceil (percentage_to_ranged_value (BondFireplaceFan_speed_range ?P) p) = int i + 1"
    by auto
  with ixP frP
  have stepP: "math_ceil (percentage_to_ranged_value (BondFireplaceFan_speed_range ?P) 66) = 2"
    by simp
  from tQ [THEN conjunct2, THEN conjunct2, THEN mp, OF g4]
  obtain j q where "list_index (speeds ?Q) 150 = Some j"
    and "from_bond_percentage ?Q (Some 150) = Inr q"
    and "math_ceil (percentage_to_ranged_value (BondFireplaceFan_speed_range ?Q) q) = int j + 1"
    by auto
  with ixQ frQ
  have stepQ: "math_ceil (percentage_to_ranged_value (BondFireplaceFan_speed_range ?Q) 100) = 2"
    by simp
  from h1 h2 h3 h4 rt ixP frP stepP g1 g2 g4 ixQ frQ stepQ show ?thesis by (intro conjI)
qed

text \<open>
  The value itself is lost above 100: \<open>_to_bond_percentage\<close> caps what it returns, so the
  member 150 comes back as 100. And in a table of 101 entries the first step is 0 percent,
  which converts back to 0, so neither the index nor the value is recovered.
\<close>

theorem bond_round_trip_counterexample:
  "150 \<in> set (speeds (example_fireplace [150, 50] (example_snapshot None None None)))
   \<and> bond_round_trip (example_fireplace [150, 50] (example_snapshot None None None)) 150 = Inr 100
   \<and> 1 \<in> set (speeds (example_fireplace [1..101] (example_snapshot None None None)))
   \<and> list_index (speeds (example_fireplace [1..101] (example_snapshot None None None))) 1 = Some 0
   \<and> from_bond_percentage (example_fireplace [1..101] (example_snapshot None None None)) (Some 1) = Inr 0
   \<and> bond_round_trip (example_fireplace [1..101] (example_snapshot None None None)) 1 = Inr 0"
proof -
  let ?A = "example_fireplace [150, 50] (example_snapshot None None None)"
  let ?B = "example_fireplace [1..101] (example_snapshot None None None)"
  have spA: "speeds ?A = [50, 150]" by (simp add: speeds_example)
  have spB: "speeds ?B = [1..101]" by (simp add: speeds_example sorted_sort_id)
  have hd: "[1..101::int] = 1 # [2..101]" by (simp add: upto_rec1)
  have ix: "list_index [1..101::int] 1 = Some 0" unfolding hd by simp
  have a: "bond_round_trip ?A 150 = Inr 100"
    by (simp add: bond_round_trip_def from_bond_percentage_def to_bond_percentage_def spA
        BondFireplaceFan_speed_range_def ranged_value_to_percentage_def states_in_range_def
        ceil_ranged_value getitem_def)
  have f: "from_bond_percentage ?B (Some 1) = Inr 0"
    by (simp add: from_bond_percentage_def spB ix BondFireplaceFan_speed_range_def
        ranged_value_to_percentage_def states_in_range_def)
  then have b: "bond_round_trip ?B 1 = Inr 0"
    by (simp add: bond_round_trip_def to_bond_percentage_def)
  have "1 \<in> set (speeds ?B)" unfolding spB by simp
  moreover have "150 \<in> set (speeds ?A)" unfolding spA by simp
  ultimately show ?thesis using a b f ix by (simp add: spB)
qed

subsection \<open>The payload of the fireplace belief calls\<close>

text \<open>
  Claim C10. The argument the fireplace adapter attaches to its SET_STATE_BELIEF calls is
  written as a set literal: \<open>{"fpfan_power", 1}\<close> and \<open>{"fpfan_speed", 66}\<close> are
  unordered collections of a name and a value, not mappings from the name to the value.
\<close>

theorem fireplace_belief_payload_is_a_set:
  "dispatched []
     (BondFireplaceFan_async_set_power_belief
        (example_fireplace [33, 66, 100] (example_snapshot None None None)) True hub_ok [])
   = [(''fp1'', Action SET_STATE_BELIEF (PySet {|PyStr ''fpfan_power'', PyInt 1|}))]
   \<and> dispatched []
     (BondFireplaceFan_async_set_speed_belief
        (example_fireplace [33, 66, 100] (example_snapshot None None None)) 50 hub_ok [])
   = [(''fp1'', Action SET_STATE_BELIEF (PySet {|PyStr ''fpfan_power'', PyInt 1|})),
      (''fp1'', Action SET_STATE_BELIEF (PySet {|PyStr ''fpfan_speed'', PyInt 66|}))]
   \<and> PySet {|PyStr ''fpfan_power'', PyInt 1|} = PySet {|PyInt 1, PyStr ''fpfan_power''|}
   \<and> PySet {|PyStr ''fpfan_power'', PyInt 1|} \<noteq> PyDict [(PyStr ''fpfan_power'', PyInt 1)]
   \<and> PySet {|PyStr ''fpfan_speed'', PyInt 66|} \<noteq> PyDict [(PyStr ''fpfan_speed'', PyInt 66)]"
proof -
  let ?P = "example_fireplace [33, 66, 100] (example_snapshot None None None)"
  have dP: "device_id (fp_device ?P) = ''fp1''"
    by (simp add: example_fireplace_def BondFireplaceFan_init_def)
  have ok: "hub_ok cs c = None" for cs c by (simp add: hub_ok_def)
  have tb: "to_bond_percentage ?P 50 = Inr 66" by code_simp
  have b1: "int_of_bool True = 1" by (simp add: int_of_bool_def)
  have p: "dispatched [] (BondFireplaceFan_async_set_power_belief ?P True hub_ok [])
   = [(''fp1'', Action SET_STATE_BELIEF (PySet {|PyStr ''fpfan_power'', PyInt 1|}))]"
    unfolding BondFireplaceFan_async_set_power_belief_def dP b1 by (rule dispatched_wrapped)
  have s: "dispatched [] (BondFireplaceFan_async_set_speed_belief ?P 50 hub_ok [])
   = [(''fp1'', Action SET_STATE_BELIEF (PySet {|PyStr ''fpfan_power'', PyInt 1|})),
      (''fp1'', Action SET_STATE_BELIEF (PySet {|PyStr ''fpfan_speed'', PyInt 66|}))]"
    unfolding BondFireplaceFan_async_set_speed_belief_def
      BondFireplaceFan_async_set_power_belief_def dP b1 tb
    by (simp only: sum.case) (simp add: dispatched_wrapped_two ok)
  have c: "PySet {|PyStr ''fpfan_power'', PyInt 1|} = PySet {|PyInt 1, PyStr ''fpfan_power''|}"
    by (simp add: finsert_commute)
  from p s c show ?thesis by simp
qed

end
